theory Spec2Isabelle
  imports Complex_Main "HOL-Library.List_Lexorder" "HOL-Library.Char_ord" "HOL-Library.Multiset"
begin

section \<open>Data model (app/db/models.py, app/models/remittance.py)\<close>

text \<open>
  The two enumerations of \<^verbatim>\<open>app/db/models.py\<close>. Both have a member called
  PAYMENT_RECEIVED; the event type's is written \<open>EVT_PAYMENT_RECEIVED\<close> here.
\<close>

datatype TransactionStatus =
    INITIATED
  | PAYMENT_PENDING
  | PAYMENT_RECEIVED
  | CONVERSION_IN_PROGRESS
  | CONVERSION_COMPLETE
  | FUNDS_SENT
  | COMPLETED
  | FAILED
  | REFUNDED

datatype EventType =
    TRANSACTION_CREATED
  | PAYMENT_INITIATED
  | EVT_PAYMENT_RECEIVED
  | CONVERSION_INITIATED
  | CONVERSION_COMPLETED
  | TRANSFER_INITIATED
  | TRANSFER_COMPLETED
  | TRANSACTION_COMPLETED
  | TRANSACTION_FAILED
  | REFUND_INITIATED
  | REFUND_COMPLETED

text \<open>The \<^verbatim>\<open>.value\<close> of an enumeration member: its string.\<close>

fun status_value :: "TransactionStatus \<Rightarrow> string" where
  "status_value INITIATED = ''INITIATED''"
| "status_value PAYMENT_PENDING = ''PAYMENT_PENDING''"
| "status_value PAYMENT_RECEIVED = ''PAYMENT_RECEIVED''"
| "status_value CONVERSION_IN_PROGRESS = ''CONVERSION_IN_PROGRESS''"
| "status_value CONVERSION_COMPLETE = ''CONVERSION_COMPLETE''"
| "status_value FUNDS_SENT = ''FUNDS_SENT''"
| "status_value COMPLETED = ''COMPLETED''"
| "status_value FAILED = ''FAILED''"
| "status_value REFUNDED = ''REFUNDED''"

fun event_type_value :: "EventType \<Rightarrow> string" where
  "event_type_value TRANSACTION_CREATED = ''TRANSACTION_CREATED''"
| "event_type_value PAYMENT_INITIATED = ''PAYMENT_INITIATED''"
| "event_type_value EVT_PAYMENT_RECEIVED = ''PAYMENT_RECEIVED''"
| "event_type_value CONVERSION_INITIATED = ''CONVERSION_INITIATED''"
| "event_type_value CONVERSION_COMPLETED = ''CONVERSION_COMPLETED''"
| "event_type_value TRANSFER_INITIATED = ''TRANSFER_INITIATED''"
| "event_type_value TRANSFER_COMPLETED = ''TRANSFER_COMPLETED''"
| "event_type_value TRANSACTION_COMPLETED = ''TRANSACTION_COMPLETED''"
| "event_type_value TRANSACTION_FAILED = ''TRANSACTION_FAILED''"
| "event_type_value REFUND_INITIATED = ''REFUND_INITIATED''"
| "event_type_value REFUND_COMPLETED = ''REFUND_COMPLETED''"

text \<open>
  A Python \<^verbatim>\<open>Dict[str, Any]\<close> is an association list in insertion order. The
  service never looks inside a value except to compare it with a string or to format
  it, so a value is \<open>None\<close> (Python's None) or \<open>Some s\<close> (a string, or the
  \<^verbatim>\<open>str()\<close> of any other object). A \<^verbatim>\<open>Decimal\<close> is a rational
  number: the products and sums below are exact as long as Python's decimal context
  (28 significant digits) does not round them. A \<^verbatim>\<open>datetime\<close> is a number of
  microseconds.
\<close>

type_synonym pyval = "string option"
type_synonym pydict = "(string \<times> pyval) list"

definition dict_get :: "pydict \<Rightarrow> string \<Rightarrow> pyval" where
  \<comment> \<open>\<^verbatim>\<open>d.get(k)\<close>: None for a missing key\<close>
  "dict_get d k = (case map_of d k of None \<Rightarrow> None | Some v \<Rightarrow> v)"

definition dict_get_default :: "pydict \<Rightarrow> string \<Rightarrow> string \<Rightarrow> pyval" where
  \<comment> \<open>\<^verbatim>\<open>d.get(k, default)\<close>: the default only for a missing key\<close>
  "dict_get_default d k dflt = (case map_of d k of None \<Rightarrow> Some dflt | Some v \<Rightarrow> v)"

fun dict_set :: "pydict \<Rightarrow> string \<Rightarrow> pyval \<Rightarrow> pydict" where
  \<comment> \<open>\<^verbatim>\<open>{**d, k: v}\<close>: an existing key keeps its place\<close>
  "dict_set [] k v = [(k, v)]"
| "dict_set ((k', v') # d) k v = (if k' = k then (k, v) # d else (k', v') # dict_set d k v)"

definition py_str :: "pyval \<Rightarrow> string" where
  \<comment> \<open>the text an f-string puts for a value\<close>
  "py_str v = (case v of None \<Rightarrow> ''None'' | Some s \<Rightarrow> s)"

record Transaction =
  transaction_id :: string
  user_id :: string
  status :: TransactionStatus
  amount_inr :: rat
  amount_cad :: "rat option"
  exchange_rate :: "rat option"
  fees :: "rat option"
  recipient_details :: pydict
  payment_details :: pydict
  wise_transfer_id :: "string option"
  ad_bank_reference :: "string option"
  failure_reason :: "string option"
  created_at :: nat
  updated_at :: nat

record TransactionEvent =
  event_transaction_id :: string
  event_id :: string
  event_timestamp :: nat
  event_type :: EventType
  event_data :: pydict
  actor :: string

record ExchangeRate =
  currency_pair :: string
  rate_timestamp :: nat
  rate :: rat
  rate_source :: string

record RemittanceRequest =
  req_amount_inr :: rat
  req_sender_id :: string
  req_recipient :: pydict

record RemittanceResponse =
  resp_transaction_id :: string
  resp_status :: string
  resp_amount_inr :: rat
  resp_amount_cad :: "rat option"
  resp_exchange_rate :: "rat option"
  resp_fees :: "rat option"
  resp_recipient :: pydict
  resp_created_at :: nat

record UPIDetails =
  upi_id :: string

record RemittanceConfirmation =
  upi_details :: UPIDetails

record RemittanceCalculation =
  calc_amount_inr :: rat
  calc_exchange_rate :: rat
  calc_amount_cad :: rat
  calc_fee_percent :: rat
  calc_fee_amount :: rat
  calc_total_amount_inr :: rat

record HistoryEntry =
  h_event_type :: string
  h_timestamp :: nat
  h_data :: pydict

record TransactionStatusResponse =
  sr_transaction_id :: string
  sr_status :: string
  sr_last_updated :: nat
  sr_history :: "HistoryEntry list"

section \<open>The environment and the persisted state\<close>

text \<open>
  What the service reads from outside: the clock (\<open>utcnow env k\<close> is the value of the
  \<open>k\<close>-th call of \<^verbatim>\<open>datetime.utcnow()\<close>), the identifiers
  (\<open>uuid4 env k\<close> is the \<open>k\<close>-th \<^verbatim>\<open>str(uuid.uuid4())\<close>), the setting
  \<^verbatim>\<open>DEFAULT_SERVICE_FEE_PERCENT\<close> of config/settings.py (0.5 by default) and
  \<^verbatim>\<open>str()\<close> of a Decimal and \<^verbatim>\<open>isoformat()\<close> of a datetime.
\<close>

record env =
  utcnow :: "nat \<Rightarrow> nat"
  uuid4 :: "nat \<Rightarrow> string"
  DEFAULT_SERVICE_FEE_PERCENT :: rat
  str_decimal :: "rat \<Rightarrow> string"
  isoformat :: "nat \<Rightarrow> string"

text \<open>
  The three DynamoDB tables of app/main.py and the calls made to the three provider
  gateways. Transactions has the hash key \<^verbatim>\<open>transaction_id\<close>;
  TransactionEvents has the hash key \<^verbatim>\<open>transaction_id\<close> and the range key
  \<^verbatim>\<open>event_id\<close>; ExchangeRates has the hash key \<^verbatim>\<open>currency_pair\<close>
  and the range key \<^verbatim>\<open>timestamp\<close>. The tables answer every call whose key
  is a string; a failure of the store is not part of the model.
\<close>

record world =
  Transactions :: "string \<Rightarrow> Transaction option"
  TransactionEvents :: "TransactionEvent list"
  ExchangeRates :: "ExchangeRate list"
  clock_reads :: nat
  uuid_draws :: nat
  get_exchange_rate_calls :: "string list"
  generate_payment_link_calls :: "(string \<times> rat \<times> string) list"
  convert_currency_calls :: "(string \<times> string \<times> string \<times> rat \<times> rat option) list"
  create_transfer_calls :: "(string \<times> string \<times> string \<times> rat option \<times> pydict) list"

text \<open>
  The exceptions an operation can raise; \<open>ProviderError msg\<close> stands for whatever a
  provider gateway raises, with its text.
\<close>

datatype error =
    ValueError string
  | TypeError
  | AttributeError
  | ClientError
  | ProviderError string

definition now :: "env \<Rightarrow> world \<Rightarrow> nat \<times> world" where
  \<comment> \<open>\<^verbatim>\<open>datetime.utcnow()\<close>\<close>
  "now env w = (utcnow env (clock_reads w), w\<lparr>clock_reads := Suc (clock_reads w)\<rparr>)"

definition new_uuid :: "env \<Rightarrow> world \<Rightarrow> string \<times> world" where
  \<comment> \<open>\<^verbatim>\<open>str(uuid.uuid4())\<close>\<close>
  "new_uuid env w = (uuid4 env (uuid_draws w), w\<lparr>uuid_draws := Suc (uuid_draws w)\<rparr>)"

section \<open>Repositories (app/db/dynamodb.py, app/db/repositories.py)\<close>

definition get_by_id :: "string \<Rightarrow> world \<Rightarrow> Transaction option" where
  "get_by_id tid w = Transactions w tid"

definition create_transaction :: "Transaction \<Rightarrow> world \<Rightarrow> world" where
  \<comment> \<open>\<^verbatim>\<open>put_item\<close>: the item replaces one with the same key\<close>
  "create_transaction t w = w\<lparr>Transactions := (Transactions w)(transaction_id t \<mapsto> t)\<rparr>"

text \<open>
  The \<^verbatim>\<open>additional_updates\<close> of \<^verbatim>\<open>update_status\<close>: the service passes
  a dictionary with one of four keys, each an attribute of the transaction.
\<close>

datatype field_update =
    Set_payment_details pydict
  | Set_failure_reason string
  | Set_ad_bank_reference string
  | Set_wise_transfer_id string

fun apply_update :: "field_update \<Rightarrow> Transaction \<Rightarrow> Transaction" where
  "apply_update (Set_payment_details d) t = t\<lparr>payment_details := d\<rparr>"
| "apply_update (Set_failure_reason r) t = t\<lparr>failure_reason := Some r\<rparr>"
| "apply_update (Set_ad_bank_reference r) t = t\<lparr>ad_bank_reference := Some r\<rparr>"
| "apply_update (Set_wise_transfer_id r) t = t\<lparr>wise_transfer_id := Some r\<rparr>"

text \<open>
  \<^verbatim>\<open>TransactionRepository.update_status\<close>: the update expression is
  \<^verbatim>\<open>SET #status = :status, updated_at = :updated_at, #0 = :0, ...\<close> with no
  condition expression, so the new status is written whatever the stored one is, and
  the item comes back as written (\<^verbatim>\<open>ALL_NEW\<close>). The placeholders
  \<^verbatim>\<open>#status\<close> and \<^verbatim>\<open>#i\<close> are taken to name the attributes that
  \<^verbatim>\<open>_expression_attribute_names\<close> records for them
  (\<^verbatim>\<open>DynamoDBRepository.update\<close> itself hands no attribute names to the
  table). The service calls \<^verbatim>\<open>update_status\<close> only for a transaction that
  \<^verbatim>\<open>get_by_id\<close> has found; for a key with no item the model leaves the table
  as it is and nothing comes back.
\<close>

definition update_status ::
  "env \<Rightarrow> string \<Rightarrow> TransactionStatus \<Rightarrow> field_update list \<Rightarrow> world
    \<Rightarrow> Transaction option \<times> world" where
  "update_status env tid st additional_updates w =
     (let (ts, w1) = now env w in
      case Transactions w1 tid of
        None \<Rightarrow> (None, w1)
      | Some t \<Rightarrow>
          let t' = fold apply_update additional_updates (t\<lparr>status := st, updated_at := ts\<rparr>)
          in (Some t', w1\<lparr>Transactions := (Transactions w1)(tid \<mapsto> t')\<rparr>))"

definition put_event :: "TransactionEvent \<Rightarrow> TransactionEvent list \<Rightarrow> TransactionEvent list" where
  \<comment> \<open>\<^verbatim>\<open>put_item\<close> on TransactionEvents: the key is (transaction_id, event_id)\<close>
  "put_event e tbl =
     filter (\<lambda>x. \<not> (event_transaction_id x = event_transaction_id e \<and> event_id x = event_id e)) tbl
       @ [e]"

definition add_event ::
  "env \<Rightarrow> string \<Rightarrow> EventType \<Rightarrow> pydict \<Rightarrow> string \<Rightarrow> world \<Rightarrow> world" where
  \<comment> \<open>\<^verbatim>\<open>TransactionEvent(...)\<close> draws the id, then reads the clock\<close>
  "add_event env tid ty data who w =
     (let (eid, w1) = new_uuid env w;
          (ts, w2) = now env w1;
          e = \<lparr>event_transaction_id = tid, event_id = eid, event_timestamp = ts,
               event_type = ty, event_data = data, actor = who\<rparr>
      in w2\<lparr>TransactionEvents := put_event e (TransactionEvents w2)\<rparr>)"

definition get_events_for_transaction :: "string \<Rightarrow> world \<Rightarrow> TransactionEvent list" where
  \<comment> \<open>a query on the hash key returns the items in the order of the range key\<close>
  "get_events_for_transaction tid w =
     sort_key event_id (filter (\<lambda>e. event_transaction_id e = tid) (TransactionEvents w))"

definition put_rate :: "ExchangeRate \<Rightarrow> ExchangeRate list \<Rightarrow> ExchangeRate list" where
  "put_rate r tbl =
     filter (\<lambda>x. \<not> (currency_pair x = currency_pair r \<and> rate_timestamp x = rate_timestamp r)) tbl
       @ [r]"

definition add_rate :: "env \<Rightarrow> string \<Rightarrow> rat \<Rightarrow> string \<Rightarrow> world \<Rightarrow> world" where
  "add_rate env pair r src w =
     (let (ts, w1) = now env w;
          x = \<lparr>currency_pair = pair, rate_timestamp = ts, rate = r, rate_source = src\<rparr>
      in w1\<lparr>ExchangeRates := put_rate x (ExchangeRates w1)\<rparr>)"

section \<open>RemittanceService (app/services/remittance_service.py)\<close>

text \<open>
  A call to a provider gateway is written to the log of calls in the state, and its
  outcome is an argument of the operation that makes it: \<open>Inr v\<close> when the gateway
  returns \<open>v\<close>, \<open>Inl msg\<close> when it raises an exception \<open>e\<close> with
  \<^verbatim>\<open>str(e)\<close> = \<open>msg\<close>. An operation returns its result, or the exception it
  raises, together with the state it leaves.
\<close>

definition fee_percent :: "env \<Rightarrow> rat" where
  \<comment> \<open>\<^verbatim>\<open>Decimal(str(settings.DEFAULT_SERVICE_FEE_PERCENT / 100))\<close>; the division
      of the float setting and its way through \<^verbatim>\<open>str\<close> are taken as exact, as
      they are for the default 0.5\<close>
  "fee_percent env = DEFAULT_SERVICE_FEE_PERCENT env / 100"

definition new_Transaction ::
  "env \<Rightarrow> string \<Rightarrow> rat \<Rightarrow> rat \<Rightarrow> rat \<Rightarrow> rat \<Rightarrow> pydict \<Rightarrow> world \<Rightarrow> Transaction \<times> world" where
  \<comment> \<open>the constructor as create_remittance calls it: the id, then created_at, then updated_at\<close>
  "new_Transaction env uid a_inr a_cad xr fs recipient w =
     (let (tid, w1) = new_uuid env w;
          (c, w2) = now env w1;
          (u, w3) = now env w2
      in (\<lparr>transaction_id = tid, user_id = uid, status = INITIATED, amount_inr = a_inr,
           amount_cad = Some a_cad, exchange_rate = Some xr, fees = Some fs,
           recipient_details = recipient, payment_details = [], wise_transfer_id = None,
           ad_bank_reference = None, failure_reason = None, created_at = c, updated_at = u\<rparr>,
          w3))"

definition response_of :: "Transaction \<Rightarrow> RemittanceResponse" where
  "response_of t =
     \<lparr>resp_transaction_id = transaction_id t, resp_status = status_value (status t),
      resp_amount_inr = amount_inr t, resp_amount_cad = amount_cad t,
      resp_exchange_rate = exchange_rate t, resp_fees = fees t,
      resp_recipient = recipient_details t, resp_created_at = created_at t\<rparr>"

definition create_remittance ::
  "env \<Rightarrow> RemittanceRequest \<Rightarrow> string + rat \<Rightarrow> world \<Rightarrow> (error + RemittanceResponse) \<times> world" where
  "create_remittance env remittance_request rate_outcome w =
     (let w0 = w\<lparr>get_exchange_rate_calls := get_exchange_rate_calls w @ [''INR_CAD'']\<rparr> in
      case rate_outcome of
        Inl msg \<Rightarrow> (Inl (ProviderError msg), w0)
      | Inr xr \<Rightarrow>
          let w1 = add_rate env ''INR_CAD'' xr ''AD_BANK'' w0;
              a_cad = req_amount_inr remittance_request * xr;
              fs = req_amount_inr remittance_request * fee_percent env;
              (transaction, w2) =
                 new_Transaction env (req_sender_id remittance_request)
                   (req_amount_inr remittance_request) a_cad xr fs
                   (req_recipient remittance_request) w1;
              w3 = create_transaction transaction w2;
              w4 = add_event env (transaction_id transaction) TRANSACTION_CREATED
                     [(''amount_inr'', Some (str_decimal env (amount_inr transaction))),
                      (''amount_cad'', Some (str_decimal env a_cad)),
                      (''exchange_rate'', Some (str_decimal env xr)),
                      (''fees'', Some (str_decimal env fs))]
                     (req_sender_id remittance_request) w3
          in (Inr (response_of transaction), w4))"

definition calculate_remittance ::
  "env \<Rightarrow> rat \<Rightarrow> string + rat \<Rightarrow> world \<Rightarrow> (error + RemittanceCalculation) \<times> world" where
  "calculate_remittance env a_inr rate_outcome w =
     (let w0 = w\<lparr>get_exchange_rate_calls := get_exchange_rate_calls w @ [''INR_CAD'']\<rparr> in
      case rate_outcome of
        Inl msg \<Rightarrow> (Inl (ProviderError msg), w0)
      | Inr xr \<Rightarrow>
          let a_cad = a_inr * xr;
              fee_amount = a_inr * fee_percent env;
              total_amount_inr = a_inr + fee_amount
          in (Inr \<lparr>calc_amount_inr = a_inr, calc_exchange_rate = xr, calc_amount_cad = a_cad,
                   calc_fee_percent = fee_percent env * 100, calc_fee_amount = fee_amount,
                   calc_total_amount_inr = total_amount_inr\<rparr>, w0))"

definition confirm_remittance ::
  "env \<Rightarrow> string \<Rightarrow> RemittanceConfirmation \<Rightarrow> string + string \<Rightarrow> world
    \<Rightarrow> (error + RemittanceResponse) \<times> world" where
  "confirm_remittance env tid confirmation link_outcome w =
     (case get_by_id tid w of
        None \<Rightarrow> (Inl (ValueError (''Transaction '' @ tid @ '' not found'')), w)
      | Some transaction \<Rightarrow>
          if status transaction \<noteq> INITIATED
          then (Inl (ValueError (''Transaction '' @ tid @ '' is not in INITIATED state'')), w)
          else
            (case fees transaction of
               None \<Rightarrow> (Inl TypeError, w)
             | Some fs \<Rightarrow>
                 let amount = amount_inr transaction + fs;
                     payer = upi_id (upi_details confirmation);
                     w0 = w\<lparr>generate_payment_link_calls :=
                              generate_payment_link_calls w @ [(tid, amount, payer)]\<rparr>
                 in (case link_outcome of
                      Inl msg \<Rightarrow> (Inl (ProviderError msg), w0)
                    | Inr upi_link \<Rightarrow>
                        let (updated_transaction, w1) =
                              update_status env tid PAYMENT_PENDING
                                [Set_payment_details
                                   [(''upi_id'', Some payer), (''upi_link'', Some upi_link)]] w0;
                            w2 = add_event env tid PAYMENT_INITIATED
                                   [(''upi_id'', Some payer),
                                    (''amount'', Some (str_decimal env amount))]
                                   ''system'' w1
                        in (case updated_transaction of
                             None \<Rightarrow> (Inl AttributeError, w2)
                           | Some u \<Rightarrow> (Inr (response_of u), w2)))))"

definition str_opt_decimal :: "env \<Rightarrow> rat option \<Rightarrow> string" where
  \<comment> \<open>\<^verbatim>\<open>str()\<close> of an Optional[Decimal]\<close>
  "str_opt_decimal env x = (case x of None \<Rightarrow> ''None'' | Some d \<Rightarrow> str_decimal env d)"

text \<open>
  The three callback handlers take the callback as a dictionary. A transaction id that
  is not a string cannot be a key of the table: the lookup raises.
\<close>

definition process_upi_payment_confirmation ::
  "env \<Rightarrow> pydict \<Rightarrow> string + string \<Rightarrow> world \<Rightarrow> (error + bool) \<times> world" where
  "process_upi_payment_confirmation env event_data' convert_outcome w =
     (case dict_get event_data' ''transaction_id'' of
        None \<Rightarrow> (Inl ClientError, w)
      | Some tid \<Rightarrow>
          (case get_by_id tid w of
             None \<Rightarrow> (Inr False, w)
           | Some transaction \<Rightarrow>
               if dict_get event_data' ''status'' \<noteq> Some ''SUCCESS''
               then
                 let (u, w1) =
                       update_status env tid FAILED
                         [Set_failure_reason
                            (''UPI payment failed: ''
                               @ py_str (dict_get_default event_data' ''error_message''
                                           ''Unknown error''))] w;
                     w2 = add_event env tid TRANSACTION_FAILED event_data' ''system'' w1
                 in (Inr False, w2)
               else
                 let (u, w1) =
                       update_status env tid PAYMENT_RECEIVED
                         [Set_payment_details
                            (dict_set (payment_details transaction) ''upi_reference''
                               (dict_get event_data' ''upi_reference''))] w;
                     w2 = add_event env tid EVT_PAYMENT_RECEIVED event_data' ''system'' w1;
                     w3 = w2\<lparr>convert_currency_calls :=
                              convert_currency_calls w2
                                @ [(tid, ''INR'', ''CAD'', amount_inr transaction,
                                    exchange_rate transaction)]\<rparr>
                 in (case convert_outcome of
                      Inr conversion_reference \<Rightarrow>
                        let (u', w4) =
                              update_status env tid CONVERSION_IN_PROGRESS
                                [Set_ad_bank_reference conversion_reference] w3;
                            w5 = add_event env tid CONVERSION_INITIATED
                                   [(''ad_bank_reference'', Some conversion_reference),
                                    (''amount_inr'',
                                       Some (str_decimal env (amount_inr transaction))),
                                    (''amount_cad'',
                                       Some (str_opt_decimal env (amount_cad transaction))),
                                    (''exchange_rate'',
                                       Some (str_opt_decimal env (exchange_rate transaction)))]
                                   ''system'' w4
                        in (Inr True, w5)
                    | Inl msg \<Rightarrow>
                        let (u', w4) =
                              update_status env tid FAILED
                                [Set_failure_reason (''Currency conversion failed: '' @ msg)] w3;
                            w5 = add_event env tid TRANSACTION_FAILED
                                   [(''error'', Some msg)] ''system'' w4
                        in (Inr False, w5))))"

definition wise_recipient :: "pydict \<Rightarrow> pydict" where
  "wise_recipient recipient =
     [(''full_name'', dict_get recipient ''full_name''),
      (''bank_name'', dict_get recipient ''bank_name''),
      (''account_number'', dict_get recipient ''account_number''),
      (''transit_number'', dict_get recipient ''transit_number''),
      (''institution_number'', dict_get recipient ''institution_number'')]"

definition process_adbank_conversion_callback ::
  "env \<Rightarrow> pydict \<Rightarrow> string + string \<Rightarrow> world \<Rightarrow> (error + bool) \<times> world" where
  "process_adbank_conversion_callback env event_data' transfer_outcome w =
     (case dict_get event_data' ''transaction_id'' of
        None \<Rightarrow> (Inl ClientError, w)
      | Some tid \<Rightarrow>
          (case get_by_id tid w of
             None \<Rightarrow> (Inr False, w)
           | Some transaction \<Rightarrow>
               if dict_get event_data' ''status'' \<noteq> Some ''SUCCESS''
               then
                 let (u, w1) =
                       update_status env tid FAILED
                         [Set_failure_reason
                            (''Currency conversion failed: ''
                               @ py_str (dict_get_default event_data' ''error_message''
                                           ''Unknown error''))] w;
                     w2 = add_event env tid TRANSACTION_FAILED event_data' ''system'' w1
                 in (Inr False, w2)
               else
                 let (u, w1) = update_status env tid CONVERSION_COMPLETE [] w;
                     w2 = add_event env tid CONVERSION_COMPLETED event_data' ''system'' w1;
                     w3 = w2\<lparr>create_transfer_calls :=
                              create_transfer_calls w2
                                @ [(tid, ''CAD'', ''CAD'', amount_cad transaction,
                                    wise_recipient (recipient_details transaction))]\<rparr>
                 in (case transfer_outcome of
                      Inr transfer_id \<Rightarrow>
                        let (u', w4) =
                              update_status env tid FUNDS_SENT
                                [Set_wise_transfer_id transfer_id] w3;
                            w5 = add_event env tid TRANSFER_INITIATED
                                   [(''wise_transfer_id'', Some transfer_id),
                                    (''amount_cad'',
                                       Some (str_opt_decimal env (amount_cad transaction)))]
                                   ''system'' w4
                        in (Inr True, w5)
                    | Inl msg \<Rightarrow>
                        let (u', w4) =
                              update_status env tid FAILED
                                [Set_failure_reason (''Transfer to Canada failed: '' @ msg)] w3;
                            w5 = add_event env tid TRANSACTION_FAILED
                                   [(''error'', Some msg)] ''system'' w4
                        in (Inr False, w5))))"

definition process_wise_transfer_callback ::
  "env \<Rightarrow> pydict \<Rightarrow> world \<Rightarrow> (error + bool) \<times> world" where
  "process_wise_transfer_callback env event_data' w =
     (case dict_get event_data' ''transaction_id'' of
        None \<Rightarrow> (Inl ClientError, w)
      | Some tid \<Rightarrow>
          (case get_by_id tid w of
             None \<Rightarrow> (Inr False, w)
           | Some transaction \<Rightarrow>
               if dict_get event_data' ''status'' \<noteq> Some ''SUCCESS''
               then
                 let (u, w1) =
                       update_status env tid FAILED
                         [Set_failure_reason
                            (''Transfer to Canada failed: ''
                               @ py_str (dict_get_default event_data' ''error_message''
                                           ''Unknown error''))] w;
                     w2 = add_event env tid TRANSACTION_FAILED event_data' ''system'' w1
                 in (Inr False, w2)
               else
                 let (u, w1) = update_status env tid COMPLETED [] w;
                     w2 = add_event env tid TRANSFER_COMPLETED event_data' ''system'' w1;
                     (completed_at, w3) = now env w2;
                     w4 = add_event env tid TRANSACTION_COMPLETED
                            [(''completed_at'', Some (isoformat env completed_at))]
                            ''system'' w3
                 in (Inr True, w4)))"

definition history_entry :: "TransactionEvent \<Rightarrow> HistoryEntry" where
  \<comment> \<open>the timestamp is kept as the time whose \<^verbatim>\<open>isoformat()\<close> the entry carries\<close>
  "history_entry e =
     \<lparr>h_event_type = event_type_value (event_type e), h_timestamp = event_timestamp e,
      h_data = event_data e\<rparr>"

definition get_transaction_status :: "string \<Rightarrow> world \<Rightarrow> error + TransactionStatusResponse" where
  \<comment> \<open>\<^verbatim>\<open>sorted(events, key=lambda x: x.event_timestamp)\<close> is a stable sort\<close>
  "get_transaction_status tid w =
     (case get_by_id tid w of
        None \<Rightarrow> Inl (ValueError (''Transaction '' @ tid @ '' not found''))
      | Some transaction \<Rightarrow>
          let events = get_events_for_transaction tid w;
              history = map history_entry (sort_key event_timestamp events)
          in Inr \<lparr>sr_transaction_id = transaction_id transaction,
                  sr_status = status_value (status transaction),
                  sr_last_updated = updated_at transaction,
                  sr_history = history\<rparr>)"

section \<open>The saga: operations, the transition table, counting events\<close>

text \<open>
  The operations that drive a transaction, each with the outcome of the gateway call it
  may make, and the state an operation leaves.
\<close>

datatype saga_op =
    Create RemittanceRequest "string + rat"
  | Confirm string RemittanceConfirmation "string + string"
  | CollectorCallback pydict "string + string"
  | ConverterCallback pydict "string + string"
  | TransmitterCallback pydict

fun run_op :: "env \<Rightarrow> saga_op \<Rightarrow> world \<Rightarrow> world" where
  "run_op env (Create req outcome) w = snd (create_remittance env req outcome w)"
| "run_op env (Confirm tid conf outcome) w = snd (confirm_remittance env tid conf outcome w)"
| "run_op env (CollectorCallback cb outcome) w =
     snd (process_upi_payment_confirmation env cb outcome w)"
| "run_op env (ConverterCallback cb outcome) w =
     snd (process_adbank_conversion_callback env cb outcome w)"
| "run_op env (TransmitterCallback cb) w = snd (process_wise_transfer_callback env cb w)"





text \<open>
  Identifiers are taken to be unique: \<^verbatim>\<open>uuid4\<close> never repeats a value, and no
  event in the table already has an identifier that is still to be drawn. Then
  \<^verbatim>\<open>put_item\<close> never replaces an event.
\<close>

definition fresh_uuids :: "env \<Rightarrow> world \<Rightarrow> bool" where
  "fresh_uuids env w \<longleftrightarrow>
     inj (uuid4 env)
     \<and> (\<forall>e \<in> set (TransactionEvents w). \<forall>k \<ge> uuid_draws w. event_id e \<noteq> uuid4 env k)"


section \<open>A sample run\<close>


definition sample_env :: env where
  "sample_env =
     \<lparr>utcnow = (\<lambda>k. min k 15),
      uuid4 = (\<lambda>k. if k = 8 then ''A'' else replicate (Suc k) CHR ''a''),
      DEFAULT_SERVICE_FEE_PERCENT = 1 / 2,
      str_decimal = (\<lambda>d. ''d''), isoformat = (\<lambda>t. ''t'')\<rparr>"

definition empty_world :: world where
  "empty_world =
     \<lparr>Transactions = (\<lambda>k. None), TransactionEvents = [], ExchangeRates = [],
      clock_reads = 0, uuid_draws = 0, get_exchange_rate_calls = [],
      generate_payment_link_calls = [], convert_currency_calls = [],
      create_transfer_calls = []\<rparr>"

definition sample_request :: RemittanceRequest where
  "sample_request =
     \<lparr>req_amount_inr = 10000, req_sender_id = ''user123'',
      req_recipient = [(''full_name'', Some ''John Doe'')]\<rparr>"

definition sample_confirmation :: RemittanceConfirmation where
  "sample_confirmation = \<lparr>upi_details = \<lparr>upi_id = ''john@ybl''\<rparr>\<rparr>"

definition sample_upi_callback :: pydict where
  "sample_upi_callback =
     [(''transaction_id'', Some ''a''), (''status'', Some ''SUCCESS''),
      (''upi_reference'', Some ''UPI12345'')]"

definition sample_adbank_callback :: pydict where
  "sample_adbank_callback =
     [(''transaction_id'', Some ''a''), (''status'', Some ''SUCCESS''),
      (''reference'', Some ''ADBANK-1'')]"

definition sample_wise_callback :: pydict where
  "sample_wise_callback =
     [(''transaction_id'', Some ''a''), (''status'', Some ''SUCCESS''),
      (''transfer_id'', Some ''WISE-1''), (''error_message'', None)]"

definition failure_callback :: pydict where
  "failure_callback = [(''transaction_id'', Some ''a''), (''status'', Some ''FAILURE'')]"

text \<open>The transaction of the sample run as it is created, and the events of the run.\<close>

definition sample_transaction :: Transaction where
  "sample_transaction =
     \<lparr>transaction_id = ''a'', user_id = ''user123'', status = INITIATED,
      amount_inr = 10000, amount_cad = Some 170, exchange_rate = Some (17 / 1000),
      fees = Some 50, recipient_details = [(''full_name'', Some ''John Doe'')],
      payment_details = [], wise_transfer_id = None, ad_bank_reference = None,
      failure_reason = None, created_at = 1, updated_at = 2\<rparr>"

definition system_event :: "string \<Rightarrow> nat \<Rightarrow> EventType \<Rightarrow> pydict \<Rightarrow> TransactionEvent" where
  "system_event eid ts ty data =
     \<lparr>event_transaction_id = ''a'', event_id = eid, event_timestamp = ts,
      event_type = ty, event_data = data, actor = ''system''\<rparr>"

definition sample_events :: "TransactionEvent list" where
  "sample_events =
     [(system_event ''aa'' 3 TRANSACTION_CREATED
         [(''amount_inr'', Some ''d''), (''amount_cad'', Some ''d''),
          (''exchange_rate'', Some ''d''), (''fees'', Some ''d'')])
        \<lparr>actor := ''user123''\<rparr>,
      system_event ''aaa'' 5 PAYMENT_INITIATED
         [(''upi_id'', Some ''john@ybl''), (''amount'', Some ''d'')],
      system_event ''aaaa'' 7 EVT_PAYMENT_RECEIVED sample_upi_callback,
      system_event ''aaaaa'' 9 CONVERSION_INITIATED
         [(''ad_bank_reference'', Some ''ADBANK-1''), (''amount_inr'', Some ''d''),
          (''amount_cad'', Some ''d''), (''exchange_rate'', Some ''d'')],
      system_event ''aaaaaa'' 11 CONVERSION_COMPLETED sample_adbank_callback,
      system_event ''aaaaaaa'' 13 TRANSFER_INITIATED
         [(''wise_transfer_id'', Some ''WISE-1''), (''amount_cad'', Some ''d'')],
      system_event ''aaaaaaaa'' 15 TRANSFER_COMPLETED sample_wise_callback,
      system_event ''A'' 15 TRANSACTION_COMPLETED [(''completed_at'', Some ''t'')]]"

text \<open>The states of the sample run, each the result of one operation on the one before.\<close>

definition world_created :: world where
  "world_created =
     empty_world
       \<lparr>Transactions := [''a'' \<mapsto> sample_transaction],
        TransactionEvents := take 1 sample_events,
        ExchangeRates :=
          [\<lparr>currency_pair = ''INR_CAD'', rate_timestamp = 0, rate = 17 / 1000,
            rate_source = ''AD_BANK''\<rparr>],
        clock_reads := 4, uuid_draws := 2, get_exchange_rate_calls := [''INR_CAD'']\<rparr>"

definition world_pending :: world where
  "world_pending =
     world_created
       \<lparr>Transactions :=
          [''a'' \<mapsto> sample_transaction
             \<lparr>status := PAYMENT_PENDING,
              payment_details := [(''upi_id'', Some ''john@ybl''), (''upi_link'', Some ''upi://pay'')],
              updated_at := 4\<rparr>],
        TransactionEvents := take 2 sample_events,
        clock_reads := 6, uuid_draws := 3,
        generate_payment_link_calls := [(''a'', 10050, ''john@ybl'')]\<rparr>"

definition world_converting :: world where
  "world_converting =
     world_pending
       \<lparr>Transactions :=
          [''a'' \<mapsto> sample_transaction
             \<lparr>status := CONVERSION_IN_PROGRESS,
              payment_details :=
                [(''upi_id'', Some ''john@ybl''), (''upi_link'', Some ''upi://pay''),
                 (''upi_reference'', Some ''UPI12345'')],
              ad_bank_reference := Some ''ADBANK-1'', updated_at := 8\<rparr>],
        TransactionEvents := take 4 sample_events,
        clock_reads := 10, uuid_draws := 5,
        convert_currency_calls := [(''a'', ''INR'', ''CAD'', 10000, Some (17 / 1000))]\<rparr>"

definition world_sent :: world where
  "world_sent =
     world_converting
       \<lparr>Transactions :=
          [''a'' \<mapsto> sample_transaction
             \<lparr>status := FUNDS_SENT,
              payment_details :=
                [(''upi_id'', Some ''john@ybl''), (''upi_link'', Some ''upi://pay''),
                 (''upi_reference'', Some ''UPI12345'')],
              wise_transfer_id := Some ''WISE-1'',
              ad_bank_reference := Some ''ADBANK-1'', updated_at := 12\<rparr>],
        TransactionEvents := take 6 sample_events,
        clock_reads := 14, uuid_draws := 7,
        create_transfer_calls :=
          [(''a'', ''CAD'', ''CAD'', Some 170,
            [(''full_name'', Some ''John Doe''), (''bank_name'', None),
             (''account_number'', None), (''transit_number'', None),
             (''institution_number'', None)])]\<rparr>"

definition world_completed :: world where
  "world_completed =
     world_sent
       \<lparr>Transactions :=
          [''a'' \<mapsto> sample_transaction
             \<lparr>status := COMPLETED,
              payment_details :=
                [(''upi_id'', Some ''john@ybl''), (''upi_link'', Some ''upi://pay''),
                 (''upi_reference'', Some ''UPI12345'')],
              wise_transfer_id := Some ''WISE-1'',
              ad_bank_reference := Some ''ADBANK-1'', updated_at := 14\<rparr>],
        TransactionEvents := sample_events,
        clock_reads := 18, uuid_draws := 9\<rparr>"

section \<open>Facts about the sample run and the repositories\<close>

lemmas service_defs =
  create_remittance_def calculate_remittance_def confirm_remittance_def
  process_upi_payment_confirmation_def process_adbank_conversion_callback_def
  process_wise_transfer_callback_def new_Transaction_def create_transaction_def
  update_status_def add_event_def add_rate_def now_def new_uuid_def get_by_id_def
  response_of_def fee_percent_def Let_def

lemmas sample_defs =
  sample_env_def empty_world_def sample_request_def sample_confirmation_def
  sample_upi_callback_def sample_adbank_callback_def sample_wise_callback_def
  failure_callback_def sample_transaction_def system_event_def sample_events_def
  world_created_def world_pending_def world_converting_def world_sent_def
  world_completed_def

lemmas eval_defs =
  service_defs sample_defs put_event_def put_rate_def dict_get_def dict_get_default_def
  py_str_def str_opt_decimal_def wise_recipient_def eval_nat_numeral







lemma add_event_frame [simp]:
  "Transactions (add_event env tid ty d a w) = Transactions w"
  "ExchangeRates (add_event env tid ty d a w) = ExchangeRates w"
  "clock_reads (add_event env tid ty d a w) = Suc (clock_reads w)"
  "uuid_draws (add_event env tid ty d a w) = Suc (uuid_draws w)"
  "get_exchange_rate_calls (add_event env tid ty d a w) = get_exchange_rate_calls w"
  "generate_payment_link_calls (add_event env tid ty d a w) = generate_payment_link_calls w"
  "convert_currency_calls (add_event env tid ty d a w) = convert_currency_calls w"
  "create_transfer_calls (add_event env tid ty d a w) = create_transfer_calls w"
  by (simp_all add: add_event_def new_uuid_def now_def Let_def)




lemma update_status_frame [simp]:
  "TransactionEvents (snd (update_status env tid st ups w)) = TransactionEvents w"
  "ExchangeRates (snd (update_status env tid st ups w)) = ExchangeRates w"
  "clock_reads (snd (update_status env tid st ups w)) = Suc (clock_reads w)"
  "uuid_draws (snd (update_status env tid st ups w)) = uuid_draws w"
  "get_exchange_rate_calls (snd (update_status env tid st ups w)) = get_exchange_rate_calls w"
  "generate_payment_link_calls (snd (update_status env tid st ups w))
     = generate_payment_link_calls w"
  "convert_currency_calls (snd (update_status env tid st ups w)) = convert_currency_calls w"
  "create_transfer_calls (snd (update_status env tid st ups w)) = create_transfer_calls w"
  by (simp_all add: update_status_def now_def Let_def split: option.splits)



lemma fresh_uuids_frame [simp]:
  "fresh_uuids env (snd (update_status env tid st ups w)) = fresh_uuids env w"
  "fresh_uuids env (w\<lparr>clock_reads := c\<rparr>) = fresh_uuids env w"
  "fresh_uuids env (w\<lparr>Transactions := m\<rparr>) = fresh_uuids env w"
  "fresh_uuids env (w\<lparr>ExchangeRates := r\<rparr>) = fresh_uuids env w"
  "fresh_uuids env (w\<lparr>get_exchange_rate_calls := l1\<rparr>) = fresh_uuids env w"
  "fresh_uuids env (w\<lparr>generate_payment_link_calls := l2\<rparr>) = fresh_uuids env w"
  "fresh_uuids env (w\<lparr>convert_currency_calls := l3\<rparr>) = fresh_uuids env w"
  "fresh_uuids env (w\<lparr>create_transfer_calls := l4\<rparr>) = fresh_uuids env w"
  by (simp_all add: fresh_uuids_def)




text \<open>What each operation of the success path adds, with identifiers that are unique.\<close>

lemma fresh_uuids_draws [simp]:
  "fresh_uuids env w \<Longrightarrow> uuid_draws w \<le> n \<Longrightarrow> fresh_uuids env (w\<lparr>uuid_draws := n\<rparr>)"
  by (simp add: fresh_uuids_def)








section \<open>The claims\<close>









text \<open>
  C4. \<open>confirm_remittance\<close> raises the error "not found" when no transaction has the
  id, and the error "is not in INITIATED state" when the transaction has another status;
  in both cases the state is returned as it was: no event, no update, no gateway call.
\<close>

theorem confirm_remittance_rejects_without_effect:
  "(get_by_id tid w = None \<longrightarrow>
      confirm_remittance env tid conf outcome w
        = (Inl (ValueError (''Transaction '' @ tid @ '' not found'')), w))
   \<and> (\<forall>t. get_by_id tid w = Some t \<and> status t \<noteq> INITIATED \<longrightarrow>
      confirm_remittance env tid conf outcome w
        = (Inl (ValueError (''Transaction '' @ tid @ '' is not in INITIATED state'')), w))"
  by (simp add: confirm_remittance_def)

theorem confirm_remittance_rejects_without_effect_witness:
  "get_by_id ''b'' world_pending = None
   \<and> confirm_remittance sample_env ''b'' sample_confirmation (Inr ''upi://pay'') world_pending
       = (Inl (ValueError ''Transaction b not found''), world_pending)
   \<and> map_option status (get_by_id ''a'' world_pending) = Some PAYMENT_PENDING
   \<and> confirm_remittance sample_env ''a'' sample_confirmation (Inr ''upi://pay'') world_pending
       = (Inl (ValueError ''Transaction a is not in INITIATED state''), world_pending)"
proof -
  have h1: "get_by_id ''b'' world_pending = None"
    by (simp add: get_by_id_def sample_defs)
  have h2: "get_by_id ''a'' world_pending = Some (the (Transactions world_pending ''a''))
            \<and> status (the (Transactions world_pending ''a'')) \<noteq> INITIATED"
    by (simp add: get_by_id_def sample_defs)
  have h3: "map_option status (get_by_id ''a'' world_pending) = Some PAYMENT_PENDING"
    by (simp add: get_by_id_def sample_defs)
  show ?thesis
    using h1 h2 h3
      confirm_remittance_rejects_without_effect
        [of "''b''" world_pending sample_env sample_confirmation "Inr ''upi://pay''"]
      confirm_remittance_rejects_without_effect
        [of "''a''" world_pending sample_env sample_confirmation "Inr ''upi://pay''"]
    by simp
qed





text \<open>
  C7, as the code has it. For a transaction in status FAILED, \<open>get_transaction_status\<close>
  returns the transaction id, the status FAILED, the time of the last update and the
  history: every event of the transaction, sorted by timestamp. The response has no
  failure_reason.
\<close>

theorem get_status_of_failed_transaction:
  assumes "get_by_id tid w = Some t" and "status t = FAILED"
  shows "\<exists>r. get_transaction_status tid w = Inr r
     \<and> sr_transaction_id r = transaction_id t
     \<and> sr_status r = ''FAILED''
     \<and> sr_last_updated r = updated_at t
     \<and> sorted (map h_timestamp (sr_history r))
     \<and> mset (sr_history r)
         = mset (map history_entry
                   (filter (\<lambda>e. event_transaction_id e = tid) (TransactionEvents w)))"
proof -
  have "h_timestamp \<circ> history_entry = event_timestamp"
    by (simp add: fun_eq_iff history_entry_def)
  then show ?thesis
    using assms
    by (simp add: get_transaction_status_def get_events_for_transaction_def Let_def)
qed

theorem get_status_of_failed_transaction_witness:
  "map_option status
      (get_by_id ''a'' (run_op sample_env (CollectorCallback failure_callback (Inr ''x'')) world_pending))
     = Some FAILED
   \<and> (\<exists>r. get_transaction_status ''a''
             (run_op sample_env (CollectorCallback failure_callback (Inr ''x'')) world_pending)
           = Inr r
        \<and> sr_status r = ''FAILED''
        \<and> sorted (map h_timestamp (sr_history r)))"
proof -
  define w where
    "w = run_op sample_env (CollectorCallback failure_callback (Inr ''x'')) world_pending"
  have h1: "get_by_id ''a'' w = Some (the (Transactions w ''a''))"
    and h2: "status (the (Transactions w ''a'')) = FAILED"
    by (simp_all add: w_def eval_defs)
  have h3: "map_option status (get_by_id ''a'' w) = Some FAILED"
    using h1 h2 by simp
  show ?thesis
    using h3 get_status_of_failed_transaction [OF h1 h2] unfolding w_def by auto
qed

text \<open>
  C7 as stated fails: the response does not carry the failure reason. The same failure
  callback, handled once as a collector callback and once as a converter callback, leaves
  two different failure reasons on the transaction, and the two responses of
  \<open>get_transaction_status\<close> are the same.
\<close>

theorem get_status_omits_failure_reason_counterexample:
  "map_option failure_reason
      (get_by_id ''a'' (run_op sample_env (CollectorCallback failure_callback (Inr ''x'')) world_pending))
     = Some (Some ''UPI payment failed: Unknown error'')
   \<and> map_option failure_reason
      (get_by_id ''a'' (run_op sample_env (ConverterCallback failure_callback (Inr ''x'')) world_pending))
     = Some (Some ''Currency conversion failed: Unknown error'')
   \<and> get_transaction_status ''a''
        (run_op sample_env (CollectorCallback failure_callback (Inr ''x'')) world_pending)
     = Inr \<lparr>sr_transaction_id = ''a'', sr_status = ''FAILED'', sr_last_updated = 6,
            sr_history =
              map history_entry
                (take 2 sample_events
                   @ [system_event ''aaaa'' 7 TRANSACTION_FAILED failure_callback])\<rparr>
   \<and> get_transaction_status ''a''
        (run_op sample_env (ConverterCallback failure_callback (Inr ''x'')) world_pending)
     = get_transaction_status ''a''
        (run_op sample_env (CollectorCallback failure_callback (Inr ''x'')) world_pending)"
  by (simp add: eval_defs get_transaction_status_def get_events_for_transaction_def)








end
